theory Spec2Isabelle
  imports Complex_Main
begin

section \<open>Data model (shared/models.py, shared/constants.py)\<close>

text \<open>
  The payment and ledger core of the lesson shop: the services in
  \<^verbatim>\<open>backend/services\<close> (payment, promo code, withdraw, finance) and the webhook
  handler of \<^verbatim>\<open>backend/api/payments.py\<close>, as functions over an explicit store.
  A table is the list of its rows in the order in which a query returns them; a query's
  \<^verbatim>\<open>.first()\<close> is the first row of the list that satisfies the filter. Python
  integers are \<open>int\<close>, a nullable column is an \<open>option\<close>, a timestamp is the number of
  microseconds since the epoch, and each reading of \<^verbatim>\<open>datetime.utcnow()\<close> is an
  argument of the function that reads it.
\<close>

type_synonym datetime = int

datatype PurchaseStatus = PENDING | COMPLETED | FAILED | REFUNDED

datatype WithdrawStatus = W_PENDING | W_APPROVED | W_COMPLETED | W_REJECTED

definition MIN_PRICE :: int where "MIN_PRICE = 1"
definition MIN_WITHDRAW_AMOUNT :: int where "MIN_WITHDRAW_AMOUNT = 100"
definition MAX_WITHDRAW_AMOUNT :: int where "MAX_WITHDRAW_AMOUNT = 50000"
definition COMMISSION_PERCENT :: int where "COMMISSION_PERCENT = 5"
definition PAYMENT_TIMEOUT_MINUTES :: int where "PAYMENT_TIMEOUT_MINUTES = 30"
definition TELEGRAM_STARS_CURRENCY :: string where "TELEGRAM_STARS_CURRENCY = ''XTR''"

record User =
  u_id :: int
  u_is_active :: bool

record Lesson =
  l_id :: int
  l_price :: int
  l_is_active :: bool

record Course =
  c_id :: int
  c_total_price :: int
  c_discount_price :: "int option"
  c_is_active :: bool

record Purchase =
  p_id :: int
  p_user_id :: int
  p_lesson_id :: "int option"
  p_course_id :: "int option"
  p_payment_id :: string
  p_amount :: int
  p_status :: PurchaseStatus
  p_created_at :: datetime
  p_updated_at :: datetime

record PromoCode =
  pc_id :: int
  pc_code :: string
  pc_discount_percent :: int
  pc_discount_amount :: "int option"
  pc_max_uses :: "int option"
  pc_current_uses :: int
  pc_is_active :: bool
  pc_expires_at :: "datetime option"

text \<open>
  The notes of a withdraw request are free text; the one text the service itself writes
  is the f-string of the automatic rejection (in Russian: insufficient funds, available:
  N Stars), kept here as a constructor that carries the interpolated amount.
\<close>

datatype Notes = Text string | Insufficient_funds int

record WithdrawRequest =
  w_id :: int
  w_amount :: int
  w_status :: WithdrawStatus
  w_telegram_wallet_address :: "string option"
  w_requested_at :: datetime
  w_processed_at :: "datetime option"
  w_notes :: "Notes option"
  w_admin_id :: "int option"

record db =
  users :: "User list"
  lessons :: "Lesson list"
  courses :: "Course list"
  purchases :: "Purchase list"
  promocodes :: "PromoCode list"
  withdraw_requests :: "WithdrawRequest list"

text \<open>Python's truth value of an optional integer: None and 0 are false.\<close>

fun truthy :: "int option \<Rightarrow> bool" where
  "truthy None = False"
| "truthy (Some n) = (n \<noteq> 0)"

text \<open>\<^verbatim>\<open>query.filter(...).first()\<close>\<close>

definition first :: "('a \<Rightarrow> bool) \<Rightarrow> 'a list \<Rightarrow> 'a option" where
  "first P rows = find P rows"

text \<open>\<^verbatim>\<open>func.coalesce(func.sum(column), 0)\<close> over the rows that pass the filter.\<close>

definition coalesce_sum :: "('a \<Rightarrow> int) \<Rightarrow> ('a \<Rightarrow> bool) \<Rightarrow> 'a list \<Rightarrow> int" where
  "coalesce_sum col P rows = sum_list (map col (filter P rows))"

section \<open>Promo code engine (backend/services/promo_service.py)\<close>

record Discount =
  original_amount :: int
  discount_amount :: int
  final_amount :: int
  discount_percent :: int

definition apply_discount :: "PromoCode \<Rightarrow> int \<Rightarrow> Discount" where
  "apply_discount promo_code amount =
     (let discount =
            (if truthy (pc_discount_amount promo_code)
             then min (the (pc_discount_amount promo_code)) (amount - MIN_PRICE)
             else (amount * pc_discount_percent promo_code) div 100);
          discount = min discount (amount - MIN_PRICE);
          final = max MIN_PRICE (amount - discount)
      in \<lparr> original_amount = amount,
           discount_amount = discount,
           final_amount = final,
           discount_percent = (if amount > 0 then (discount * 100) div amount else 0) \<rparr>)"

section \<open>Withdrawal ledger (withdraw_service.py, finance_service.py)\<close>

text \<open>The three aggregate queries both services run.\<close>

definition total_revenue :: "db \<Rightarrow> int" where
  "total_revenue s = coalesce_sum p_amount (\<lambda>p. p_status p = COMPLETED) (purchases s)"

definition total_withdraws :: "db \<Rightarrow> int" where
  "total_withdraws s =
     coalesce_sum w_amount (\<lambda>r. w_status r \<in> set [W_APPROVED, W_COMPLETED]) (withdraw_requests s)"

definition pending_withdraws :: "db \<Rightarrow> int" where
  "pending_withdraws s =
     coalesce_sum w_amount (\<lambda>r. w_status r = W_PENDING) (withdraw_requests s)"

text \<open>\<^verbatim>\<open>WithdrawService._calculate_available_amount\<close>\<close>

definition calculate_available_amount :: "db \<Rightarrow> int" where
  "calculate_available_amount s =
     (let revenue = total_revenue s;
          withdraws = total_withdraws s;
          pending = pending_withdraws s;
          commission = (revenue * COMMISSION_PERCENT) div 100;
          available = revenue - withdraws - pending - commission
      in max 0 available)"

record WithdrawableAmount =
  wa_total_revenue :: int
  wa_total_withdraws :: int
  wa_pending_withdraws :: int
  wa_available_amount :: int
  wa_commission_amount :: int

text \<open>\<^verbatim>\<open>FinanceService.calculate_withdrawable_amount\<close>\<close>

definition calculate_withdrawable_amount :: "db \<Rightarrow> WithdrawableAmount" where
  "calculate_withdrawable_amount s =
     (let revenue = total_revenue s;
          withdraws = total_withdraws s;
          pending = pending_withdraws s;
          commission_amount = (revenue * COMMISSION_PERCENT) div 100;
          available_amount = revenue - withdraws - pending - commission_amount;
          available_amount = max 0 available_amount
      in \<lparr> wa_total_revenue = revenue,
           wa_total_withdraws = withdraws,
           wa_pending_withdraws = pending,
           wa_available_amount = available_amount,
           wa_commission_amount = commission_amount \<rparr>)"

text \<open>
  The balance as the specification words it: completed revenue, minus approved and
  completed withdrawals, minus pending withdrawals, minus the commission (the floor of
  revenue times percent over 100), floored at zero.
\<close>

definition AvailableBalance_spec :: "int \<Rightarrow> db \<Rightarrow> int" where
  "AvailableBalance_spec commission_percent s =
     max 0
       ((\<Sum>p \<leftarrow> purchases s. if p_status p = COMPLETED then p_amount p else 0)
        - (\<Sum>r \<leftarrow> withdraw_requests s.
             if w_status r = W_APPROVED \<or> w_status r = W_COMPLETED then w_amount r else 0)
        - (\<Sum>r \<leftarrow> withdraw_requests s. if w_status r = W_PENDING then w_amount r else 0)
        - \<lfloor>(of_int ((\<Sum>p \<leftarrow> purchases s. if p_status p = COMPLETED then p_amount p else 0)
                  * commission_percent) :: real) / 100\<rfloor>)"

section \<open>Payment intent service (backend/services/payment_service.py)\<close>

text \<open>
  Assigning to the attributes of the object that \<^verbatim>\<open>.first()\<close> returned and
  committing: the first row that satisfies the filter is replaced, the others are kept.
\<close>

fun update_first :: "('a \<Rightarrow> bool) \<Rightarrow> ('a \<Rightarrow> 'a) \<Rightarrow> 'a list \<Rightarrow> 'a list" where
  "update_first P f [] = []"
| "update_first P f (r # rs) = (if P r then f r # rs else r # update_first P f rs)"

definition process_successful_payment :: "datetime \<Rightarrow> int \<Rightarrow> db \<Rightarrow> bool \<times> db" where
  "process_successful_payment utcnow purchase_id s =
     (case first (\<lambda>p. p_id p = purchase_id) (purchases s) of
        None \<Rightarrow> (False, s)
      | Some purchase \<Rightarrow>
          (True, s\<lparr>purchases :=
                    update_first (\<lambda>p. p_id p = purchase_id)
                      (\<lambda>p. p\<lparr>p_status := COMPLETED, p_updated_at := utcnow\<rparr>) (purchases s)\<rparr>))"

definition handle_failed_payment :: "datetime \<Rightarrow> int \<Rightarrow> string \<Rightarrow> db \<Rightarrow> bool \<times> db" where
  "handle_failed_payment utcnow purchase_id error s =
     (case first (\<lambda>p. p_id p = purchase_id) (purchases s) of
        None \<Rightarrow> (False, s)
      | Some purchase \<Rightarrow>
          (True, s\<lparr>purchases :=
                    update_first (\<lambda>p. p_id p = purchase_id)
                      (\<lambda>p. p\<lparr>p_status := FAILED, p_updated_at := utcnow\<rparr>) (purchases s)\<rparr>))"

definition get_payment_status :: "string \<Rightarrow> db \<Rightarrow> PurchaseStatus option" where
  "get_payment_status payment_id s =
     map_option p_status (first (\<lambda>p. p_payment_id p = payment_id) (purchases s))"

subsection \<open>Expiry sweep\<close>

definition timedelta_minutes :: "int \<Rightarrow> int" where
  "timedelta_minutes m = m * 60000000"

definition is_expired :: "datetime \<Rightarrow> Purchase \<Rightarrow> bool" where
  "is_expired expiry_time p = (p_status p = PENDING \<and> p_created_at p < expiry_time)"

text \<open>
  The loop over the selected rows. The clock is read again for each of them:
  \<open>utcnow k\<close> is the \<open>k\<close>-th reading of \<^verbatim>\<open>datetime.utcnow()\<close> in the call.
\<close>

fun fail_expired :: "(nat \<Rightarrow> datetime) \<Rightarrow> nat \<Rightarrow> datetime \<Rightarrow> Purchase list \<Rightarrow> Purchase list" where
  "fail_expired utcnow k expiry_time [] = []"
| "fail_expired utcnow k expiry_time (p # ps) =
     (if is_expired expiry_time p
      then p\<lparr>p_status := FAILED, p_updated_at := utcnow k\<rparr>
             # fail_expired utcnow (Suc k) expiry_time ps
      else p # fail_expired utcnow k expiry_time ps)"

text \<open>
  \<^verbatim>\<open>cancel_expired_payments\<close> takes no argument: the timeout is the module constant
  \<^verbatim>\<open>PAYMENT_TIMEOUT_MINUTES\<close>. The body is written once over the timeout.
\<close>

definition cancel_expired_after :: "int \<Rightarrow> (nat \<Rightarrow> datetime) \<Rightarrow> db \<Rightarrow> int \<times> db" where
  "cancel_expired_after timeout_minutes utcnow s =
     (let expiry_time = utcnow 0 - timedelta_minutes timeout_minutes;
          expired_purchases = filter (is_expired expiry_time) (purchases s)
      in (int (length expired_purchases),
          s\<lparr>purchases := fail_expired utcnow 1 expiry_time (purchases s)\<rparr>))"

definition cancel_expired_payments :: "(nat \<Rightarrow> datetime) \<Rightarrow> db \<Rightarrow> int \<times> db" where
  "cancel_expired_payments = cancel_expired_after PAYMENT_TIMEOUT_MINUTES"

subsection \<open>The invoice payload\<close>

text \<open>\<^verbatim>\<open>json.dumps(..., ensure_ascii=False)\<close> of integers, None and strings.\<close>

fun digits :: "nat \<Rightarrow> string" where
  "digits n = (if n < 10 then [char_of (48 + n)]
               else digits (n div 10) @ [char_of (48 + n mod 10)])"

definition dumps_int :: "int \<Rightarrow> string" where
  "dumps_int i = (if i < 0 then CHR ''-'' # digits (nat (- i)) else digits (nat i))"

definition dumps_opt_int :: "int option \<Rightarrow> string" where
  "dumps_opt_int v = (case v of None \<Rightarrow> ''null'' | Some i \<Rightarrow> dumps_int i)"

definition hex_digit :: "nat \<Rightarrow> char" where
  "hex_digit n = (if n < 10 then char_of (48 + n) else char_of (87 + n))"

definition escape_char :: "char \<Rightarrow> string" where
  "escape_char c =
     (if c = CHR 0x22 then [CHR 0x5C, CHR 0x22]
      else if c = CHR 0x5C then [CHR 0x5C, CHR 0x5C]
      else if c = CHR 0x0A then [CHR 0x5C, CHR ''n'']
      else if c = CHR 0x0D then [CHR 0x5C, CHR ''r'']
      else if c = CHR 0x09 then [CHR 0x5C, CHR ''t'']
      else if c = CHR 0x08 then [CHR 0x5C, CHR ''b'']
      else if c = CHR 0x0C then [CHR 0x5C, CHR ''f'']
      else if (of_char c :: nat) < 32
        then [CHR 0x5C, CHR ''u'', CHR ''0'', CHR ''0'',
              hex_digit (of_char c div 16), hex_digit (of_char c mod 16)]
      else [c])"

definition dumps_str :: "string \<Rightarrow> string" where
  "dumps_str t = [CHR 0x22] @ concat (map escape_char t) @ [CHR 0x22]"

definition create_invoice_payload ::
  "string \<Rightarrow> int \<Rightarrow> int option \<Rightarrow> string \<Rightarrow> string \<Rightarrow> string" where
  "create_invoice_payload timestamp user_id item_id item_type payment_id =
     ''{'' @ dumps_str ''user_id'' @ '': '' @ dumps_int user_id @ '', ''
          @ dumps_str ''item_id'' @ '': '' @ dumps_opt_int item_id @ '', ''
          @ dumps_str ''item_type'' @ '': '' @ dumps_str item_type @ '', ''
          @ dumps_str ''payment_id'' @ '': '' @ dumps_str payment_id @ '', ''
          @ dumps_str ''timestamp'' @ '': '' @ dumps_str timestamp @ ''}''"

subsection \<open>Verification\<close>

text \<open>
  The fields of the provider's dictionary that the check reads; a key that is absent is
  None and \<^verbatim>\<open>.get\<close> supplies the default.
\<close>

record TelegramPaymentData =
  td_total_amount :: "int option"
  td_currency :: "string option"
  td_invoice_payload :: "string option"

definition get_default :: "'a option \<Rightarrow> 'a \<Rightarrow> 'a" where
  "get_default v d = (case v of None \<Rightarrow> d | Some x \<Rightarrow> x)"

text \<open>
  \<open>timestamp\<close> is \<^verbatim>\<open>datetime.utcnow().isoformat()\<close> as read inside
  \<^verbatim>\<open>_create_invoice_payload\<close> during this call.
\<close>

definition verify_payment :: "string \<Rightarrow> string \<Rightarrow> TelegramPaymentData \<Rightarrow> db \<Rightarrow> bool" where
  "verify_payment timestamp payment_id telegram_payment_data s =
     (case first (\<lambda>p. p_payment_id p = payment_id) (purchases s) of
        None \<Rightarrow> False
      | Some purchase \<Rightarrow>
          if p_status purchase \<noteq> PENDING then False
          else if get_default (td_total_amount telegram_payment_data) 0 \<noteq> p_amount purchase
            then False
          else if get_default (td_currency telegram_payment_data) '''' \<noteq> TELEGRAM_STARS_CURRENCY
            then False
          else
            let invoice_payload = get_default (td_invoice_payload telegram_payment_data) '''';
                expected_payload =
                  create_invoice_payload timestamp (p_user_id purchase)
                    (if truthy (p_lesson_id purchase) then p_lesson_id purchase
                     else p_course_id purchase)
                    (if truthy (p_lesson_id purchase) then ''lesson'' else ''course'')
                    payment_id
            in if invoice_payload \<noteq> expected_payload then False else True)"

section \<open>Promo codes: validation and redemption\<close>

text \<open>Every \<^verbatim>\<open>ValueError\<close> the services raise, and the store's refusal of a duplicate key.\<close>

datatype Error =
    User_not_found
  | User_inactive
  | Item_not_found string
  | Item_inactive string
  | Unsupported_item_type
  | Already_purchased
  | Promo_invalid
  | Promo_not_found
  | Promo_deactivated
  | Promo_expired
  | Promo_exhausted
  | Below_minimum_withdraw
  | Above_maximum_withdraw
  | Not_enough_funds int
  | IntegrityError

text \<open>\<^verbatim>\<open>str.upper\<close> on the ASCII letters; other bytes are kept.\<close>

definition upper_char :: "char \<Rightarrow> char" where
  "upper_char c =
     (if 97 \<le> (of_char c :: nat) \<and> (of_char c :: nat) \<le> 122
      then char_of ((of_char c :: nat) - 32) else c)"

definition upper :: "string \<Rightarrow> string" where
  "upper t = map upper_char t"

text \<open>The property \<^verbatim>\<open>PromoCode.is_valid\<close> of the model class.\<close>

definition is_valid :: "datetime \<Rightarrow> PromoCode \<Rightarrow> bool" where
  "is_valid utcnow promo =
     (if \<not> pc_is_active promo then False
      else if (case pc_expires_at promo of None \<Rightarrow> False | Some e \<Rightarrow> e < utcnow) then False
      else if truthy (pc_max_uses promo) \<and> pc_current_uses promo \<ge> the (pc_max_uses promo)
        then False
      else True)"

definition validate_promo_code :: "datetime \<Rightarrow> string \<Rightarrow> db \<Rightarrow> Error + PromoCode" where
  "validate_promo_code utcnow code s =
     (case first (\<lambda>q. pc_code q = upper code) (promocodes s) of
        None \<Rightarrow> Inl Promo_not_found
      | Some promo \<Rightarrow>
          if \<not> pc_is_active promo then Inl Promo_deactivated
          else if (case pc_expires_at promo of None \<Rightarrow> False | Some e \<Rightarrow> e < utcnow)
            then Inl Promo_expired
          else if truthy (pc_max_uses promo) \<and> pc_current_uses promo \<ge> the (pc_max_uses promo)
            then Inl Promo_exhausted
          else Inr promo)"

text \<open>
  \<^verbatim>\<open>PromoCodeService.use_promo_code\<close>: the counter is incremented and, when the limit
  is reached, the code is deactivated, before the one commit.
\<close>

definition use_promo_code :: "datetime \<Rightarrow> string \<Rightarrow> int \<Rightarrow> db \<Rightarrow> bool \<times> db" where
  "use_promo_code utcnow code user_id s =
     (case validate_promo_code utcnow code s of
        Inl e \<Rightarrow> (False, s)
      | Inr promo \<Rightarrow>
          (True,
           s\<lparr>promocodes :=
               update_first (\<lambda>q. pc_code q = upper code)
                 (\<lambda>q. let q = q\<lparr>pc_current_uses := pc_current_uses q + 1\<rparr>
                      in if truthy (pc_max_uses q) \<and> pc_current_uses q \<ge> the (pc_max_uses q)
                         then q\<lparr>pc_is_active := False\<rparr> else q)
                 (promocodes s)\<rparr>))"

text \<open>
  \<^verbatim>\<open>PaymentService._apply_promo_code\<close>: the redemption made while a payment is
  created. It returns the discount and the final price.
\<close>

definition apply_promo_code ::
  "datetime \<Rightarrow> string \<Rightarrow> int \<Rightarrow> int \<Rightarrow> db \<Rightarrow> (Error + int \<times> int) \<times> db" where
  "apply_promo_code utcnow code base_price user_id s =
     (case first (\<lambda>q. pc_code q = upper code) (promocodes s) of
        None \<Rightarrow> (Inl Promo_invalid, s)
      | Some promo \<Rightarrow>
          if \<not> is_valid utcnow promo then (Inl Promo_invalid, s)
          else if truthy (pc_max_uses promo) \<and> pc_current_uses promo \<ge> the (pc_max_uses promo)
            then (Inl Promo_exhausted, s)
          else
            let discount =
                  (if truthy (pc_discount_amount promo)
                   then min (the (pc_discount_amount promo)) base_price
                   else (base_price * pc_discount_percent promo) div 100);
                final_price = max MIN_PRICE (base_price - discount)
            in (Inr (discount, final_price),
                s\<lparr>promocodes :=
                    update_first (\<lambda>q. pc_code q = upper code)
                      (\<lambda>q. q\<lparr>pc_current_uses := pc_current_uses q + 1\<rparr>)
                      (promocodes s)\<rparr>))"

section \<open>Creating a payment\<close>

datatype Item = Lesson_item Lesson | Course_item Course

fun item_is_active :: "Item \<Rightarrow> bool" where
  "item_is_active (Lesson_item l) = l_is_active l"
| "item_is_active (Course_item c) = c_is_active c"

definition get_item_and_price :: "int \<Rightarrow> string \<Rightarrow> db \<Rightarrow> Error + Item option \<times> int" where
  "get_item_and_price item_id item_type s =
     (if item_type = ''lesson'' then
        (case first (\<lambda>l. l_id l = item_id) (lessons s) of
           None \<Rightarrow> Inr (None, 0)
         | Some l \<Rightarrow> Inr (Some (Lesson_item l), l_price l))
      else if item_type = ''course'' then
        (case first (\<lambda>c. c_id c = item_id) (courses s) of
           None \<Rightarrow> Inr (None, 0)
         | Some c \<Rightarrow>
             Inr (Some (Course_item c),
                  if truthy (c_discount_price c) then the (c_discount_price c)
                  else c_total_price c))
      else Inl Unsupported_item_type)"

definition check_existing_purchase :: "int \<Rightarrow> int \<Rightarrow> string \<Rightarrow> db \<Rightarrow> bool" where
  "check_existing_purchase user_id item_id item_type s =
     (first (\<lambda>p. p_user_id p = user_id \<and> p_status p = COMPLETED
                 \<and> (if item_type = ''lesson'' then p_lesson_id p = Some item_id
                    else p_course_id p = Some item_id))
        (purchases s) \<noteq> None)"

text \<open>\<open>uuid_hex\<close> is \<^verbatim>\<open>uuid.uuid4().hex\<close>, the random source of the call.\<close>

definition generate_payment_id :: "string \<Rightarrow> string" where
  "generate_payment_id uuid_hex = ''pay_'' @ take 16 uuid_hex"

text \<open>
  Adding a row and committing. The primary key is the next integer after the keys in the
  table; \<^verbatim>\<open>payment_id\<close> is declared unique, so the store refuses a second row with
  the same value and the commit raises.
\<close>

definition next_id :: "Purchase list \<Rightarrow> int" where
  "next_id rows = fold max (map p_id rows) 0 + 1"

definition add_purchase :: "Purchase \<Rightarrow> db \<Rightarrow> Error + db" where
  "add_purchase purchase s =
     (if p_payment_id purchase \<in> set (map p_payment_id (purchases s)) then Inl IntegrityError
      else Inr (s\<lparr>purchases := purchases s @ [purchase\<lparr>p_id := next_id (purchases s)\<rparr>]\<rparr>))"

record PaymentResponse =
  pr_payment_id :: string
  pr_amount :: int
  pr_final_amount :: int
  pr_discount_applied :: int
  pr_invoice_payload :: string

text \<open>
  What the call reads from outside the store: the clock for the promo code's validity,
  the random hex string, the ISO timestamp written into the payload, and the store's
  clock for the new row.
\<close>

record Env =
  env_utcnow :: datetime
  env_uuid_hex :: string
  env_timestamp :: string
  env_db_now :: datetime

definition create_payment ::
  "Env \<Rightarrow> int \<Rightarrow> int \<Rightarrow> string \<Rightarrow> string option \<Rightarrow> db \<Rightarrow> (Error + PaymentResponse) \<times> db" where
  "create_payment env user_id item_id item_type promo_code s =
     (case first (\<lambda>u. u_id u = user_id) (users s) of
        None \<Rightarrow> (Inl User_not_found, s)
      | Some user \<Rightarrow>
          if \<not> u_is_active user then (Inl User_inactive, s)
          else
            (case get_item_and_price item_id item_type s of
               Inl e \<Rightarrow> (Inl e, s)
             | Inr (None, base_price) \<Rightarrow> (Inl (Item_not_found item_type), s)
             | Inr (Some item, base_price) \<Rightarrow>
                 if \<not> item_is_active item then (Inl (Item_inactive item_type), s)
                 else if check_existing_purchase user_id item_id item_type s
                   then (Inl Already_purchased, s)
                 else
                   (case (if promo_code \<noteq> None \<and> promo_code \<noteq> Some ''''
                          then apply_promo_code (env_utcnow env) (the promo_code) base_price user_id s
                          else (Inr (0, base_price), s)) of
                      (Inl e, s1) \<Rightarrow> (Inl e, s1)
                    | (Inr (discount_applied, final_price), s1) \<Rightarrow>
                        let payment_id = generate_payment_id (env_uuid_hex env);
                            invoice_payload =
                              create_invoice_payload (env_timestamp env) user_id (Some item_id)
                                item_type payment_id;
                            purchase =
                              \<lparr> p_id = 0,
                                p_user_id = user_id,
                                p_lesson_id = (if item_type = ''lesson'' then Some item_id else None),
                                p_course_id = (if item_type = ''lesson'' then None else Some item_id),
                                p_payment_id = payment_id,
                                p_amount = final_price,
                                p_status = PENDING,
                                p_created_at = env_db_now env,
                                p_updated_at = env_db_now env \<rparr>
                        in (case add_purchase purchase s1 of
                              Inl e \<Rightarrow> (Inl e, s1)
                            | Inr s2 \<Rightarrow>
                                (Inr \<lparr> pr_payment_id = payment_id,
                                       pr_amount = base_price,
                                       pr_final_amount = final_price,
                                       pr_discount_applied = discount_applied,
                                       pr_invoice_payload = invoice_payload \<rparr>, s2)))))"

section \<open>Webhook handler (backend/api/payments.py)\<close>

text \<open>The values of a parsed JSON document, an object as the list of its members.\<close>

datatype json =
    JNull
  | JBool bool
  | JInt int
  | JStr string
  | JArr "json list"
  | JObj "(string \<times> json) list"

text \<open>Python's truth value of such a value.\<close>

fun json_truthy :: "json \<Rightarrow> bool" where
  "json_truthy JNull = False"
| "json_truthy (JBool b) = b"
| "json_truthy (JInt n) = (n \<noteq> 0)"
| "json_truthy (JStr t) = (t \<noteq> [])"
| "json_truthy (JArr xs) = (xs \<noteq> [])"
| "json_truthy (JObj kvs) = (kvs \<noteq> [])"

text \<open>
  \<^verbatim>\<open>d.get(key, default)\<close>. On a value that is not a dictionary the attribute does not
  exist and Python raises \<^verbatim>\<open>AttributeError\<close>: the result is None.
\<close>

fun dict_get :: "json \<Rightarrow> string \<Rightarrow> json \<Rightarrow> json option" where
  "dict_get (JObj kvs) key dflt =
     Some (case map_of kvs key of None \<Rightarrow> dflt | Some v \<Rightarrow> v)"
| "dict_get _ key dflt = None"

datatype Outcome =
    No_successful_payment
  | Invalid_invoice_payload
  | No_payment_id
  | Purchase_not_found
  | Processed bool
  | Handler_exception

text \<open>
  \<^verbatim>\<open>_process_successful_payment_webhook\<close>. The parser \<^verbatim>\<open>json.loads\<close> is the
  argument \<open>loads\<close>: None when it raises \<^verbatim>\<open>JSONDecodeError\<close>. The outcome names the
  log line the handler writes; the handler itself returns nothing.
\<close>

definition process_successful_payment_webhook ::
  "(string \<Rightarrow> json option) \<Rightarrow> datetime \<Rightarrow> json \<Rightarrow> db \<Rightarrow> Outcome \<times> db" where
  "process_successful_payment_webhook loads utcnow webhook_data s =
     (case dict_get webhook_data ''message'' (JObj []) of
        None \<Rightarrow> (Handler_exception, s)
      | Some message \<Rightarrow>
     (case dict_get message ''successful_payment'' (JObj []) of
        None \<Rightarrow> (Handler_exception, s)
      | Some successful_payment \<Rightarrow>
          if \<not> json_truthy successful_payment then (No_successful_payment, s)
          else
     (case dict_get successful_payment ''invoice_payload'' (JStr '''') of
        None \<Rightarrow> (Handler_exception, s)
      | Some invoice_payload \<Rightarrow>
     (case dict_get successful_payment ''telegram_payment_charge_id'' (JStr '''') of
        None \<Rightarrow> (Handler_exception, s)
      | Some telegram_payment_charge_id \<Rightarrow>
     (case invoice_payload of
        JStr payload \<Rightarrow>
          (case loads payload of
             None \<Rightarrow> (Invalid_invoice_payload, s)
           | Some payload_data \<Rightarrow>
               (case dict_get payload_data ''payment_id'' JNull of
                  None \<Rightarrow> (Invalid_invoice_payload, s)
                | Some payment_id \<Rightarrow>
                    if \<not> json_truthy payment_id then (No_payment_id, s)
                    else
                      (case first (\<lambda>p. JStr (p_payment_id p) = payment_id) (purchases s) of
                         None \<Rightarrow> (Purchase_not_found, s)
                       | Some purchase \<Rightarrow>
                           (case process_successful_payment utcnow (p_id purchase) s of
                              (success, s') \<Rightarrow> (Processed success, s')))))
      | _ \<Rightarrow> (Handler_exception, s))))))"

section \<open>Withdraw requests (backend/services/withdraw_service.py)\<close>

definition get_withdraw_request_by_id :: "int \<Rightarrow> db \<Rightarrow> WithdrawRequest option" where
  "get_withdraw_request_by_id request_id s =
     first (\<lambda>r. w_id r = request_id) (withdraw_requests s)"

definition next_request_id :: "WithdrawRequest list \<Rightarrow> int" where
  "next_request_id rows = fold max (map w_id rows) 0 + 1"

definition create_withdraw_request ::
  "datetime \<Rightarrow> int \<Rightarrow> string option \<Rightarrow> string option \<Rightarrow> db \<Rightarrow> (Error + WithdrawRequest) \<times> db" where
  "create_withdraw_request utcnow amount wallet_address notes s =
     (if amount < MIN_WITHDRAW_AMOUNT then (Inl Below_minimum_withdraw, s)
      else if amount > MAX_WITHDRAW_AMOUNT then (Inl Above_maximum_withdraw, s)
      else
        let available_amount = calculate_available_amount s
        in if amount > available_amount then (Inl (Not_enough_funds available_amount), s)
           else
             let withdraw_request =
                   \<lparr> w_id = next_request_id (withdraw_requests s),
                     w_amount = amount,
                     w_status = W_PENDING,
                     w_telegram_wallet_address = wallet_address,
                     w_requested_at = utcnow,
                     w_processed_at = None,
                     w_notes = map_option Text notes,
                     w_admin_id = None \<rparr>
             in (Inr withdraw_request,
                 s\<lparr>withdraw_requests := withdraw_requests s @ [withdraw_request]\<rparr>))"

definition approve_withdraw ::
  "datetime \<Rightarrow> int \<Rightarrow> int \<Rightarrow> string option \<Rightarrow> db \<Rightarrow> bool \<times> db" where
  "approve_withdraw utcnow request_id admin_id notes s =
     (case get_withdraw_request_by_id request_id s of
        None \<Rightarrow> (False, s)
      | Some withdraw_request \<Rightarrow>
          if w_status withdraw_request \<noteq> W_PENDING then (False, s)
          else
            let available_amount = calculate_available_amount s
            in if w_amount withdraw_request > available_amount then
                 (False,
                  s\<lparr>withdraw_requests :=
                      update_first (\<lambda>r. w_id r = request_id)
                        (\<lambda>r. r\<lparr>w_status := W_REJECTED,
                                w_notes := Some (Insufficient_funds available_amount),
                                w_admin_id := Some admin_id,
                                w_processed_at := Some utcnow\<rparr>)
                        (withdraw_requests s)\<rparr>)
               else
                 (True,
                  s\<lparr>withdraw_requests :=
                      update_first (\<lambda>r. w_id r = request_id)
                        (\<lambda>r. let r = r\<lparr>w_status := W_APPROVED,
                                        w_admin_id := Some admin_id,
                                        w_processed_at := Some utcnow\<rparr>
                             in if notes \<noteq> None \<and> notes \<noteq> Some ''''
                                then r\<lparr>w_notes := Some (Text (the notes))\<rparr> else r)
                        (withdraw_requests s)\<rparr>))"

definition reject_withdraw :: "datetime \<Rightarrow> int \<Rightarrow> int \<Rightarrow> string \<Rightarrow> db \<Rightarrow> bool \<times> db" where
  "reject_withdraw utcnow request_id admin_id reason s =
     (case get_withdraw_request_by_id request_id s of
        None \<Rightarrow> (False, s)
      | Some withdraw_request \<Rightarrow>
          if w_status withdraw_request \<noteq> W_PENDING then (False, s)
          else
            (True,
             s\<lparr>withdraw_requests :=
                 update_first (\<lambda>r. w_id r = request_id)
                   (\<lambda>r. r\<lparr>w_status := W_REJECTED,
                           w_admin_id := Some admin_id,
                           w_notes := Some (Text reason),
                           w_processed_at := Some utcnow\<rparr>)
                   (withdraw_requests s)\<rparr>))"

definition process_withdraw :: "datetime \<Rightarrow> int \<Rightarrow> int \<Rightarrow> db \<Rightarrow> bool \<times> db" where
  "process_withdraw utcnow request_id admin_id s =
     (case get_withdraw_request_by_id request_id s of
        None \<Rightarrow> (False, s)
      | Some withdraw_request \<Rightarrow>
          if w_status withdraw_request \<noteq> W_APPROVED then (False, s)
          else
            (True,
             s\<lparr>withdraw_requests :=
                 update_first (\<lambda>r. w_id r = request_id)
                   (\<lambda>r. r\<lparr>w_status := W_COMPLETED,
                           w_admin_id := Some admin_id,
                           w_processed_at := Some utcnow\<rparr>)
                   (withdraw_requests s)\<rparr>))"

text \<open>A sequence of withdrawal operations, each with its arguments and its clock reading.\<close>

datatype WithdrawOp =
    Create datetime int "string option" "string option"
  | Approve datetime int int "string option"
  | Reject datetime int int string
  | Process datetime int int

fun withdraw_step :: "db \<Rightarrow> WithdrawOp \<Rightarrow> db" where
  "withdraw_step s (Create t amount wallet notes) = snd (create_withdraw_request t amount wallet notes s)"
| "withdraw_step s (Approve t request_id admin_id notes) = snd (approve_withdraw t request_id admin_id notes s)"
| "withdraw_step s (Reject t request_id admin_id reason) = snd (reject_withdraw t request_id admin_id reason s)"
| "withdraw_step s (Process t request_id admin_id) = snd (process_withdraw t request_id admin_id s)"

definition withdraw_run :: "WithdrawOp list \<Rightarrow> db \<Rightarrow> db" where
  "withdraw_run ops s = foldl withdraw_step s ops"

text \<open>
  The bound of the ledger: the approved and completed withdrawals are covered by the
  completed revenue net of the commission.
\<close>

definition within_revenue :: "db \<Rightarrow> bool" where
  "within_revenue s =
     (total_withdraws s
        \<le> total_revenue s - (total_revenue s * COMMISSION_PERCENT) div 100)"

definition pending_nonnegative :: "db \<Rightarrow> bool" where
  "pending_nonnegative s =
     list_all (\<lambda>r. w_status r = W_PENDING \<longrightarrow> 0 \<le> w_amount r) (withdraw_requests s)"

section \<open>Example stores\<close>

definition empty_db :: db where
  "empty_db = \<lparr> users = [], lessons = [], courses = [], purchases = [], promocodes = [],
                withdraw_requests = [] \<rparr>"

definition mk_purchase :: "int \<Rightarrow> string \<Rightarrow> int \<Rightarrow> PurchaseStatus \<Rightarrow> datetime \<Rightarrow> Purchase" where
  "mk_purchase i payment_id amount status created =
     \<lparr> p_id = i, p_user_id = 1, p_lesson_id = Some 1, p_course_id = None,
       p_payment_id = payment_id, p_amount = amount, p_status = status,
       p_created_at = created, p_updated_at = created \<rparr>"

definition mk_request :: "int \<Rightarrow> int \<Rightarrow> WithdrawStatus \<Rightarrow> WithdrawRequest" where
  "mk_request i amount status =
     \<lparr> w_id = i, w_amount = amount, w_status = status, w_telegram_wallet_address = None,
       w_requested_at = 0, w_processed_at = None, w_notes = None, w_admin_id = None \<rparr>"

text \<open>Revenue 10000, approved withdrawals 2000, pending withdrawals 500.\<close>

definition ledger_example :: db where
  "ledger_example =
     empty_db\<lparr> purchases := [mk_purchase 1 ''pay_a'' 10000 COMPLETED 0],
               withdraw_requests := [mk_request 1 2000 W_APPROVED, mk_request 2 500 W_PENDING] \<rparr>"

text \<open>One purchase in each terminal status.\<close>

definition terminal_example :: db where
  "terminal_example =
     empty_db\<lparr> purchases := [mk_purchase 1 ''pay_a'' 100 COMPLETED 0,
                              mk_purchase 2 ''pay_b'' 100 FAILED 0,
                              mk_purchase 3 ''pay_c'' 100 REFUNDED 0] \<rparr>"

text \<open>
  A webhook whose amount and currency differ from those of every purchase, and whose
  payload names the payment \<open>pay_b\<close>; the parser is given on that one payload.
\<close>

definition payload_data_example :: json where
  "payload_data_example = JObj [(''user_id'', JInt 999), (''payment_id'', JStr ''pay_b'')]"

definition successful_payment_example :: json where
  "successful_payment_example =
     JObj [(''currency'', JStr ''USD''),
           (''total_amount'', JInt 1),
           (''invoice_payload'', JStr ''PAYLOAD''),
           (''telegram_payment_charge_id'', JStr ''ch_1'')]"

definition message_example :: json where
  "message_example = JObj [(''successful_payment'', successful_payment_example)]"

definition webhook_example :: json where
  "webhook_example =
     JObj [(''update_type'', JStr ''successful_payment''), (''message'', message_example)]"

definition loads_example :: "string \<Rightarrow> json option" where
  "loads_example t = (if t = ''PAYLOAD'' then Some payload_data_example else None)"

text \<open>
  An active user, an active lesson at price 100, and a promo code of 10 percent with one
  use left.
\<close>

definition promo_example :: db where
  "promo_example =
     empty_db\<lparr> users := [\<lparr>u_id = 1, u_is_active = True\<rparr>],
               lessons := [\<lparr>l_id = 1, l_price = 100, l_is_active = True\<rparr>],
               promocodes := [\<lparr> pc_id = 1, pc_code = ''ONCE'', pc_discount_percent = 10,
                                pc_discount_amount = None, pc_max_uses = Some 1,
                                pc_current_uses = 0, pc_is_active = True,
                                pc_expires_at = None \<rparr>] \<rparr>"

definition env_example :: Env where
  "env_example = \<lparr> env_utcnow = 1000, env_uuid_hex = ''0123456789abcdef0123456789abcdef'',
                   env_timestamp = ''2024-01-01T00:00:00'', env_db_now = 1000 \<rparr>"

text \<open>
  The purchase and the provider data of the test \<^verbatim>\<open>test_verify_payment_success\<close>: the
  payload is the one written for this purchase at 2024-01-01T00:00:00.
\<close>

definition test_invoice_payload :: string where
  \<open>test_invoice_payload =
     ''{"user_id": 1, "item_id": 1, "item_type": "lesson", "payment_id": "pay_test123", "timestamp": "2024-01-01T00:00:00"}''\<close>

definition verify_example :: db where
  "verify_example = empty_db\<lparr> purchases := [mk_purchase 1 ''pay_test123'' 100 PENDING 0] \<rparr>"

definition telegram_data_example :: TelegramPaymentData where
  "telegram_data_example =
     \<lparr> td_total_amount = Some 100, td_currency = Some ''XTR'',
       td_invoice_payload = Some test_invoice_payload \<rparr>"

text \<open>
  The scenario of the sweep: two pending purchases, created at time 0 and two minutes
  later, and a completed purchase created at time 0 as well; the clock of the sweep
  reads 31 minutes.
\<close>

definition sweep_example :: db where
  "sweep_example =
     empty_db\<lparr> purchases := [mk_purchase 1 ''pay_a'' 100 PENDING 0,
                              mk_purchase 2 ''pay_b'' 100 COMPLETED 0,
                              mk_purchase 3 ''pay_c'' 100 PENDING (timedelta_minutes 2)] \<rparr>"

definition clock_example :: "nat \<Rightarrow> datetime" where
  "clock_example k = timedelta_minutes 31 + int k"


section \<open>Theorems\<close>

lemma coalesce_sum_if:
  "coalesce_sum col P rows = (\<Sum>r \<leftarrow> rows. if P r then col r else 0)"
  unfolding coalesce_sum_def by (induction rows) simp_all

subsection \<open>The discount\<close>

text \<open>
  C7. For every promo code and every integer base amount, the result of
  \<^verbatim>\<open>apply_discount\<close> has the base amount as its original amount, the original
  amount minus the discount is the final amount, and the final amount is at least the
  minimum price. For the base amount 100 and a promo code of 10 percent (no fixed amount)
  the result is original 100, discount 10, final 90.
\<close>

theorem apply_discount_round_trip:
  "original_amount (apply_discount promo amount) - discount_amount (apply_discount promo amount)
     = final_amount (apply_discount promo amount)
   \<and> original_amount (apply_discount promo amount) = amount
   \<and> MIN_PRICE \<le> final_amount (apply_discount promo amount)
   \<and> apply_discount (promo\<lparr>pc_discount_percent := 10, pc_discount_amount := None\<rparr>) 100
       = \<lparr>original_amount = 100, discount_amount = 10, final_amount = 90, discount_percent = 10\<rparr>"
  by (simp add: apply_discount_def Let_def MIN_PRICE_def)

subsection \<open>The available balance\<close>

lemma commission_floor: "\<lfloor>(of_int (r * c) :: real) / 100\<rfloor> = (r * c) div 100"
  using floor_divide_of_int_eq [of "r * c" 100, where ?'a = real] by simp

lemma available_eq_spec:
  "calculate_available_amount s = AvailableBalance_spec COMMISSION_PERCENT s"
  unfolding calculate_available_amount_def AvailableBalance_spec_def Let_def
    total_revenue_def total_withdraws_def pending_withdraws_def coalesce_sum_if commission_floor
  by simp

lemma withdrawable_eq_available:
  "wa_available_amount (calculate_withdrawable_amount s) = calculate_available_amount s"
  by (simp add: calculate_withdrawable_amount_def calculate_available_amount_def Let_def)

text \<open>
  C4. In every state of the store, the available amount of the withdraw service and of
  the finance service is the balance of the specification at the configured commission
  percent: completed revenue minus approved and completed withdrawals minus pending
  withdrawals minus the floored commission, and at least zero. With revenue 10000,
  commission 5 percent, withdrawals 2000 and pending withdrawals 500 it is 7000.
\<close>

theorem available_balance_formula:
  "calculate_available_amount s = AvailableBalance_spec COMMISSION_PERCENT s
   \<and> wa_available_amount (calculate_withdrawable_amount s)
       = AvailableBalance_spec COMMISSION_PERCENT s
   \<and> (total_revenue s = 10000 \<and> total_withdraws s = 2000 \<and> pending_withdraws s = 500
        \<longrightarrow> COMMISSION_PERCENT = 5 \<and> calculate_available_amount s = 7000
            \<and> wa_available_amount (calculate_withdrawable_amount s) = 7000)"
  by (simp add: withdrawable_eq_available available_eq_spec [symmetric])
     (simp add: calculate_available_amount_def Let_def COMMISSION_PERCENT_def)

lemma ledger_example_sums:
  "total_revenue ledger_example = 10000" "total_withdraws ledger_example = 2000"
  "pending_withdraws ledger_example = 500"
  by (simp_all add: ledger_example_def empty_db_def mk_purchase_def mk_request_def
      total_revenue_def total_withdraws_def pending_withdraws_def coalesce_sum_def)

theorem available_balance_formula_witness:
  "total_revenue ledger_example = 10000 \<and> total_withdraws ledger_example = 2000
   \<and> pending_withdraws ledger_example = 500
   \<and> calculate_available_amount ledger_example = 7000
   \<and> wa_available_amount (calculate_withdrawable_amount ledger_example) = 7000
   \<and> AvailableBalance_spec COMMISSION_PERCENT ledger_example = 7000"
  using available_balance_formula [of ledger_example] by (simp add: ledger_example_sums)

subsection \<open>Finalizing and failing a purchase\<close>

lemma first_update_first:
  "(\<And>r. P r \<Longrightarrow> P (f r)) \<Longrightarrow> first P (update_first P f rs) = map_option f (first P rs)"
  unfolding first_def by (induction rs) auto

lemma filter_update_first:
  "(\<And>r. P r \<Longrightarrow> P (f r)) \<Longrightarrow>
   filter (\<lambda>r. \<not> P r) (update_first P f rs) = filter (\<lambda>r. \<not> P r) rs"
  by (induction rs) auto

text \<open>
  C1, as stated, fails: \<^verbatim>\<open>handle_failed_payment\<close> moves a completed purchase to failed,
  and \<^verbatim>\<open>process_successful_payment\<close> moves a failed purchase to completed.
\<close>

theorem terminal_status_counterexample:
  "map p_status (purchases terminal_example) = [COMPLETED, FAILED, REFUNDED]
   \<and> map p_status (purchases (snd (handle_failed_payment 50 1 ''late'' terminal_example)))
       = [FAILED, FAILED, REFUNDED]
   \<and> map p_status (purchases (snd (process_successful_payment 50 2 terminal_example)))
       = [COMPLETED, COMPLETED, REFUNDED]"
  by (simp add: terminal_example_def empty_db_def mk_purchase_def handle_failed_payment_def
      process_successful_payment_def first_def)

text \<open>
  C1, amended. For every purchase that exists, whatever its status,
  \<^verbatim>\<open>process_successful_payment\<close> returns true and leaves it completed, and
  \<^verbatim>\<open>handle_failed_payment\<close> returns true and leaves it failed, with the time of the
  call as its update time; the rows with another id are unchanged. So finalizing a
  completed purchase and failing a failed purchase keep the status, and every other
  terminal status is overwritten.
\<close>

theorem finalize_and_fail_overwrite:
  assumes "first (\<lambda>p. p_id p = purchase_id) (purchases s) = Some purchase"
  shows "fst (process_successful_payment t purchase_id s)
    \<and> first (\<lambda>p. p_id p = purchase_id)
          (purchases (snd (process_successful_payment t purchase_id s)))
        = Some (purchase\<lparr>p_status := COMPLETED, p_updated_at := t\<rparr>)
    \<and> filter (\<lambda>p. p_id p \<noteq> purchase_id)
          (purchases (snd (process_successful_payment t purchase_id s)))
        = filter (\<lambda>p. p_id p \<noteq> purchase_id) (purchases s)
    \<and> fst (handle_failed_payment t purchase_id e s)
    \<and> first (\<lambda>p. p_id p = purchase_id)
          (purchases (snd (handle_failed_payment t purchase_id e s)))
        = Some (purchase\<lparr>p_status := FAILED, p_updated_at := t\<rparr>)
    \<and> filter (\<lambda>p. p_id p \<noteq> purchase_id)
          (purchases (snd (handle_failed_payment t purchase_id e s)))
        = filter (\<lambda>p. p_id p \<noteq> purchase_id) (purchases s)"
  using assms
  by (simp add: process_successful_payment_def handle_failed_payment_def first_update_first
      filter_update_first)

theorem finalize_and_fail_overwrite_witness:
  "first (\<lambda>p. p_id p = 3) (purchases terminal_example)
     = Some (mk_purchase 3 ''pay_c'' 100 REFUNDED 0)
   \<and> first (\<lambda>p. p_id p = 3) (purchases (snd (process_successful_payment 50 3 terminal_example)))
       = Some (mk_purchase 3 ''pay_c'' 100 REFUNDED 0\<lparr>p_status := COMPLETED, p_updated_at := 50\<rparr>)
   \<and> first (\<lambda>p. p_id p = 3)
         (purchases (snd (handle_failed_payment 50 3 ''late'' terminal_example)))
       = Some (mk_purchase 3 ''pay_c'' 100 REFUNDED 0\<lparr>p_status := FAILED, p_updated_at := 50\<rparr>)"
proof -
  have h: "first (\<lambda>p. p_id p = 3) (purchases terminal_example)
             = Some (mk_purchase 3 ''pay_c'' 100 REFUNDED 0)"
    by (simp add: terminal_example_def empty_db_def mk_purchase_def first_def)
  show ?thesis
    using h finalize_and_fail_overwrite [OF h, of 50 "''late''"] by simp
qed

subsection \<open>Redeeming a promo code\<close>

text \<open>
  What each of the two redemption paths does to the code it finds: both add one to the
  counter; only \<^verbatim>\<open>use_promo_code\<close> deactivates the code at the limit.
\<close>

lemma use_promo_code_redeems:
  assumes "validate_promo_code t code s = Inr promo"
  shows "fst (use_promo_code t code user_id s)
    \<and> first (\<lambda>q. pc_code q = upper code) (promocodes (snd (use_promo_code t code user_id s)))
        = Some (promo\<lparr>pc_current_uses := pc_current_uses promo + 1,
                       pc_is_active := \<not> (truthy (pc_max_uses promo)
                                          \<and> pc_current_uses promo + 1 \<ge> the (pc_max_uses promo))\<rparr>)
    \<and> (truthy (pc_max_uses promo) \<longrightarrow> pc_current_uses promo + 1 \<le> the (pc_max_uses promo))"
proof -
  from assms have found: "first (\<lambda>q. pc_code q = upper code) (promocodes s) = Some promo"
    and active: "pc_is_active promo"
    and left: "truthy (pc_max_uses promo) \<longrightarrow> pc_current_uses promo < the (pc_max_uses promo)"
    by (auto simp: validate_promo_code_def split: option.splits if_splits)
  from left have bound:
    "truthy (pc_max_uses promo) \<longrightarrow> pc_current_uses promo + 1 \<le> the (pc_max_uses promo)"
    by linarith
  have run: "fst (use_promo_code t code user_id s)
    \<and> first (\<lambda>q. pc_code q = upper code) (promocodes (snd (use_promo_code t code user_id s)))
        = Some (promo\<lparr>pc_current_uses := pc_current_uses promo + 1,
                       pc_is_active := \<not> (truthy (pc_max_uses promo)
                                          \<and> pc_current_uses promo + 1 \<ge> the (pc_max_uses promo))\<rparr>)"
    using found active assms
    by (simp add: use_promo_code_def first_update_first Let_def)
  from run bound show ?thesis
    by (simp only: simp_thms)
qed

lemma is_valid_uses_left:
  "is_valid t promo \<Longrightarrow>
   \<not> (truthy (pc_max_uses promo) \<and> pc_current_uses promo \<ge> the (pc_max_uses promo))"
  by (simp add: is_valid_def split: if_splits)

lemma apply_promo_code_redeems:
  assumes "fst (apply_promo_code t code base_price user_id s) = Inr r"
  shows "\<exists>promo. first (\<lambda>q. pc_code q = upper code) (promocodes s) = Some promo
    \<and> is_valid t promo
    \<and> first (\<lambda>q. pc_code q = upper code)
          (promocodes (snd (apply_promo_code t code base_price user_id s)))
        = Some (promo\<lparr>pc_current_uses := pc_current_uses promo + 1\<rparr>)
    \<and> (truthy (pc_max_uses promo) \<longrightarrow> pc_current_uses promo + 1 \<le> the (pc_max_uses promo))"
proof (cases "first (\<lambda>q. pc_code q = upper code) (promocodes s)")
  case None
  with assms show ?thesis by (simp add: apply_promo_code_def)
next
  case (Some promo)
  show ?thesis
  proof (cases "is_valid t promo")
    case False
    with assms Some show ?thesis by (simp add: apply_promo_code_def)
  next
    case True
    note left = is_valid_uses_left [OF True]
    then have bound:
      "truthy (pc_max_uses promo) \<longrightarrow> pc_current_uses promo + 1 \<le> the (pc_max_uses promo)"
      by linarith
    have after: "first (\<lambda>q. pc_code q = upper code)
          (promocodes (snd (apply_promo_code t code base_price user_id s)))
        = Some (promo\<lparr>pc_current_uses := pc_current_uses promo + 1\<rparr>)"
    proof -
      from left have exhausted:
        "(truthy (pc_max_uses promo) \<and> pc_current_uses promo \<ge> the (pc_max_uses promo)) = False"
        by simp
      show ?thesis
        using Some True
        by (simp add: apply_promo_code_def Let_def first_update_first exhausted)
    qed
    from Some True after bound show ?thesis by simp
  qed
qed

text \<open>
  C2 at the failing input. The code has one use left. Redeemed by
  \<^verbatim>\<open>use_promo_code\<close> it ends with one use and inactive; redeemed by
  \<^verbatim>\<open>_apply_promo_code\<close>, alone or inside \<^verbatim>\<open>create_payment\<close>, it ends with one
  use and still active.
\<close>

theorem apply_promo_code_keeps_active:
  "map (\<lambda>q. (pc_max_uses q, pc_current_uses q, pc_is_active q)) (promocodes promo_example)
     = [(Some 1, 0, True)]
   \<and> map (\<lambda>q. (pc_max_uses q, pc_current_uses q, pc_is_active q))
        (promocodes (snd (use_promo_code 1000 ''once'' 1 promo_example)))
     = [(Some 1, 1, False)]
   \<and> map (\<lambda>q. (pc_max_uses q, pc_current_uses q, pc_is_active q))
        (promocodes (snd (apply_promo_code 1000 ''once'' 100 1 promo_example)))
     = [(Some 1, 1, True)]
   \<and> map (\<lambda>q. (pc_max_uses q, pc_current_uses q, pc_is_active q))
        (promocodes (snd (create_payment env_example 1 1 ''lesson'' (Some ''once'') promo_example)))
     = [(Some 1, 1, True)]"
  by code_simp

subsection \<open>Verifying a payment\<close>

text \<open>
  C5 at the failing input, the data of the service's own test. The purchase is pending,
  amount and currency agree and the payload is the one created for this purchase. The
  check passes only when the clock reads the very instant written in the payload; one
  second later it fails.
\<close>

theorem verify_payment_depends_on_clock:
  "verify_payment ''2024-01-01T00:00:00'' ''pay_test123'' telegram_data_example verify_example
   \<and> \<not> verify_payment ''2024-01-01T00:00:01'' ''pay_test123'' telegram_data_example verify_example"
  by code_simp

subsection \<open>The webhook handler\<close>

lemma first_by_key:
  "first Q rs = Some r \<Longrightarrow> distinct (map k rs) \<Longrightarrow> first (\<lambda>x. k x = k r) rs = Some r"
  unfolding first_def
proof (induction rs)
  case Nil
  then show ?case by simp
next
  case (Cons x xs)
  show ?case
  proof (cases "Q x")
    case True
    with Cons.prems show ?thesis by simp
  next
    case False
    with Cons.prems have f: "find Q xs = Some r" and d: "distinct (map k xs)" and nx: "k x \<notin> k ` set xs"
      by simp_all
    from f have "r \<in> set xs" by (auto simp: find_Some_iff)
    with nx have "k x \<noteq> k r" by auto
    with Cons.IH [OF f d] show ?thesis by simp
  qed
qed

lemma first_update_by_key:
  "first Q rs = Some r \<Longrightarrow> distinct (map k rs) \<Longrightarrow> Q (f r) \<Longrightarrow>
   first Q (update_first (\<lambda>x. k x = k r) f rs) = Some (f r)"
  unfolding first_def
proof (induction rs)
  case Nil
  then show ?case by simp
next
  case (Cons x xs)
  show ?case
  proof (cases "Q x")
    case True
    with Cons.prems show ?thesis by simp
  next
    case False
    with Cons.prems have f: "find Q xs = Some r" and d: "distinct (map k xs)" and nx: "k x \<notin> k ` set xs"
      by simp_all
    from f have "r \<in> set xs" by (auto simp: find_Some_iff)
    with nx have "k x \<noteq> k r" by auto
    with Cons.IH [OF f d Cons.prems(3)] False show ?thesis by simp
  qed
qed

text \<open>
  C6. Let the webhook carry a non-empty \<open>successful_payment\<close> object whose invoice
  payload parses to an object with a non-empty string \<open>payment_id\<close>, and let a purchase
  with that payment id exist (primary keys being distinct). Then the handler calls
  \<^verbatim>\<open>process_successful_payment\<close> for that purchase and leaves it completed. Nothing
  else of the webhook is read: amount, currency and the other payload fields are
  arbitrary.
\<close>

theorem webhook_completes_by_payment_id:
  assumes message: "dict_get webhook_data ''message'' (JObj []) = Some message"
    and sp: "dict_get message ''successful_payment'' (JObj []) = Some successful_payment"
    and nonempty: "json_truthy successful_payment"
    and payload: "dict_get successful_payment ''invoice_payload'' (JStr '''') = Some (JStr payload)"
    and parsed: "loads payload = Some payload_data"
    and pid: "dict_get payload_data ''payment_id'' JNull = Some (JStr payment_id)"
    and pid_nonempty: "payment_id \<noteq> ''''"
    and found: "first (\<lambda>p. p_payment_id p = payment_id) (purchases s) = Some purchase"
    and keys: "distinct (map p_id (purchases s))"
  shows "process_successful_payment_webhook loads t webhook_data s
           = (Processed True, snd (process_successful_payment t (p_id purchase) s))
       \<and> first (\<lambda>p. p_payment_id p = payment_id)
            (purchases (snd (process_successful_payment_webhook loads t webhook_data s)))
           = Some (purchase\<lparr>p_status := COMPLETED, p_updated_at := t\<rparr>)
       \<and> get_payment_status payment_id
            (snd (process_successful_payment_webhook loads t webhook_data s)) = Some COMPLETED"
proof -
  obtain kvs where obj: "successful_payment = JObj kvs"
    using payload by (cases successful_payment) simp_all
  have charge: "dict_get successful_payment ''telegram_payment_charge_id'' (JStr '''') \<noteq> None"
    by (simp add: obj)
  have byid: "first (\<lambda>p. p_id p = p_id purchase) (purchases s) = Some purchase"
    by (rule first_by_key [OF found keys])
  have run: "process_successful_payment t (p_id purchase) s
      = (True, s\<lparr>purchases :=
                 update_first (\<lambda>p. p_id p = p_id purchase)
                   (\<lambda>p. p\<lparr>p_status := COMPLETED, p_updated_at := t\<rparr>) (purchases s)\<rparr>)"
    by (simp add: process_successful_payment_def byid)
  have hook: "process_successful_payment_webhook loads t webhook_data s
           = (Processed True, snd (process_successful_payment t (p_id purchase) s))"
    using charge
    by (auto simp: process_successful_payment_webhook_def message sp nonempty payload parsed pid
        pid_nonempty found run)
  have after: "first (\<lambda>p. p_payment_id p = payment_id)
       (update_first (\<lambda>p. p_id p = p_id purchase)
          (\<lambda>p. p\<lparr>p_status := COMPLETED, p_updated_at := t\<rparr>) (purchases s))
      = Some (purchase\<lparr>p_status := COMPLETED, p_updated_at := t\<rparr>)"
  proof (rule first_update_by_key [OF found keys])
    from found show "p_payment_id (purchase\<lparr>p_status := COMPLETED, p_updated_at := t\<rparr>) = payment_id"
      by (auto simp: first_def find_Some_iff)
  qed
  show ?thesis
    by (simp add: hook run after get_payment_status_def)
qed

theorem webhook_completes_by_payment_id_witness:
  "map p_status (purchases terminal_example) = [COMPLETED, FAILED, REFUNDED]
   \<and> map p_amount (purchases terminal_example) = [100, 100, 100]
   \<and> process_successful_payment_webhook loads_example 77 webhook_example terminal_example
       = (Processed True,
          snd (process_successful_payment 77 (p_id (mk_purchase 2 ''pay_b'' 100 FAILED 0))
                 terminal_example))
   \<and> get_payment_status ''pay_b''
        (snd (process_successful_payment_webhook loads_example 77 webhook_example terminal_example))
       = Some COMPLETED"
proof -
  have found: "first (\<lambda>p. p_payment_id p = ''pay_b'') (purchases terminal_example)
                 = Some (mk_purchase 2 ''pay_b'' 100 FAILED 0)"
    by (simp add: terminal_example_def empty_db_def mk_purchase_def first_def)
  have keys: "distinct (map p_id (purchases terminal_example))"
    by (simp add: terminal_example_def empty_db_def mk_purchase_def)
  have statuses: "map p_status (purchases terminal_example) = [COMPLETED, FAILED, REFUNDED]"
    "map p_amount (purchases terminal_example) = [100, 100, 100]"
    by (simp_all add: terminal_example_def empty_db_def mk_purchase_def)
  have message: "dict_get webhook_example ''message'' (JObj []) = Some message_example"
    by (simp add: webhook_example_def)
  have sp: "dict_get message_example ''successful_payment'' (JObj [])
              = Some successful_payment_example"
    by (simp add: message_example_def)
  have nonempty: "json_truthy successful_payment_example"
    by (simp add: successful_payment_example_def)
  have payload: "dict_get successful_payment_example ''invoice_payload'' (JStr '''')
                   = Some (JStr ''PAYLOAD'')"
    by (simp add: successful_payment_example_def)
  have parsed: "loads_example ''PAYLOAD'' = Some payload_data_example"
    by (simp add: loads_example_def)
  have pid: "dict_get payload_data_example ''payment_id'' JNull = Some (JStr ''pay_b'')"
    by (simp add: payload_data_example_def)
  have pid_nonempty: "''pay_b'' \<noteq> ''''"
    by simp
  show ?thesis
    using statuses webhook_completes_by_payment_id
      [where loads = loads_example and t = 77,
        OF message sp nonempty payload parsed pid pid_nonempty found keys]
    by blast
qed

subsection \<open>The expiry sweep\<close>

lemma length_fail_expired: "length (fail_expired clock k e ps) = length ps"
  by (induction ps arbitrary: k) simp_all

lemma nth_fail_expired:
  "i < length ps \<Longrightarrow>
   (if is_expired e (ps ! i)
    then p_status (fail_expired clock k e ps ! i) = FAILED
       \<and> (fail_expired clock k e ps ! i)\<lparr>p_status := PENDING,
                                            p_updated_at := p_updated_at (ps ! i)\<rparr> = ps ! i
       \<and> (\<exists>j. p_updated_at (fail_expired clock k e ps ! i) = clock j)
    else fail_expired clock k e ps ! i = ps ! i)"
proof (induction ps arbitrary: k i)
  case Nil
  then show ?case by simp
next
  case (Cons p ps)
  show ?case
  proof (cases i)
    case 0
    then show ?thesis by (auto simp: is_expired_def)
  next
    case (Suc n)
    with Cons.prems have "n < length ps" by simp
    from Cons.IH [OF this] Suc show ?thesis by simp
  qed
qed

text \<open>
  C8. For every store, every timeout and every clock, the sweep keeps the number and the
  order of the purchases; it returns the number of purchases that are pending and were
  created more than the timeout before the first clock reading; each of these becomes
  failed, with nothing else changed but its update time; every other purchase, a
  completed one included, is unchanged, as is every other table.
  \<^verbatim>\<open>cancel_expired_payments\<close> is the sweep at the configured timeout of 30 minutes.
\<close>

theorem sweep_fails_exactly_expired:
  fixes clock :: "nat \<Rightarrow> datetime"
  defines "overdue \<equiv> \<lambda>timeout p.
             p_status p = PENDING \<and> timedelta_minutes timeout < clock 0 - p_created_at p"
  shows "length (purchases (snd (cancel_expired_after timeout clock s))) = length (purchases s)
    \<and> fst (cancel_expired_after timeout clock s)
        = int (length (filter (overdue timeout) (purchases s)))
    \<and> (\<forall>i < length (purchases s).
          if overdue timeout (purchases s ! i)
          then p_status (purchases (snd (cancel_expired_after timeout clock s)) ! i) = FAILED
             \<and> (purchases (snd (cancel_expired_after timeout clock s)) ! i)
                  \<lparr>p_status := PENDING, p_updated_at := p_updated_at (purchases s ! i)\<rparr>
                = purchases s ! i
          else purchases (snd (cancel_expired_after timeout clock s)) ! i = purchases s ! i)
    \<and> (snd (cancel_expired_after timeout clock s))\<lparr>purchases := purchases s\<rparr> = s
    \<and> cancel_expired_payments clock s = cancel_expired_after 30 clock s"
proof -
  have ov: "overdue timeout = is_expired (clock 0 - timedelta_minutes timeout)"
    by (auto simp: overdue_def is_expired_def fun_eq_iff)
  have each: "\<forall>i < length (purchases s).
          if overdue timeout (purchases s ! i)
          then p_status (purchases (snd (cancel_expired_after timeout clock s)) ! i) = FAILED
             \<and> (purchases (snd (cancel_expired_after timeout clock s)) ! i)
                  \<lparr>p_status := PENDING, p_updated_at := p_updated_at (purchases s ! i)\<rparr>
                = purchases s ! i
          else purchases (snd (cancel_expired_after timeout clock s)) ! i = purchases s ! i"
  proof (intro allI impI)
    fix i assume "i < length (purchases s)"
    from nth_fail_expired [OF this, of "clock 0 - timedelta_minutes timeout" clock 1]
    show "if overdue timeout (purchases s ! i)
          then p_status (purchases (snd (cancel_expired_after timeout clock s)) ! i) = FAILED
             \<and> (purchases (snd (cancel_expired_after timeout clock s)) ! i)
                  \<lparr>p_status := PENDING, p_updated_at := p_updated_at (purchases s ! i)\<rparr>
                = purchases s ! i
          else purchases (snd (cancel_expired_after timeout clock s)) ! i = purchases s ! i"
      by (auto simp: ov cancel_expired_after_def Let_def)
  qed
  have rest: "length (purchases (snd (cancel_expired_after timeout clock s))) = length (purchases s)"
    "fst (cancel_expired_after timeout clock s)
        = int (length (filter (overdue timeout) (purchases s)))"
    "(snd (cancel_expired_after timeout clock s))\<lparr>purchases := purchases s\<rparr> = s"
    "cancel_expired_payments clock s = cancel_expired_after 30 clock s"
    by (simp_all add: ov cancel_expired_after_def Let_def length_fail_expired
        cancel_expired_payments_def PAYMENT_TIMEOUT_MINUTES_def)
  show ?thesis
    by (rule conjI [OF rest(1) conjI [OF rest(2) conjI [OF each conjI [OF rest(3) rest(4)]]]])
qed

theorem sweep_fails_exactly_expired_witness:
  "map p_status (purchases sweep_example) = [PENDING, COMPLETED, PENDING]
   \<and> fst (cancel_expired_payments clock_example sweep_example) = 1
   \<and> map p_status (purchases (snd (cancel_expired_payments clock_example sweep_example)))
       = [FAILED, COMPLETED, PENDING]
   \<and> purchases (snd (cancel_expired_payments clock_example sweep_example)) ! 1
       = purchases sweep_example ! 1"
proof -
  have len: "(1::nat) < length (purchases sweep_example)"
    by (simp add: sweep_example_def empty_db_def)
  have not_overdue: "\<not> (p_status (purchases sweep_example ! 1) = PENDING
        \<and> timedelta_minutes 30 < clock_example 0 - p_created_at (purchases sweep_example ! 1))"
    by (simp add: sweep_example_def empty_db_def mk_purchase_def)
  have eval: "map p_status (purchases sweep_example) = [PENDING, COMPLETED, PENDING]"
    "fst (cancel_expired_payments clock_example sweep_example) = 1"
    "map p_status (purchases (snd (cancel_expired_payments clock_example sweep_example)))
       = [FAILED, COMPLETED, PENDING]"
    by (simp_all add: sweep_example_def empty_db_def mk_purchase_def cancel_expired_payments_def
        cancel_expired_after_def PAYMENT_TIMEOUT_MINUTES_def clock_example_def
        timedelta_minutes_def is_expired_def Let_def)
  note sweep = sweep_fails_exactly_expired [of 30 clock_example sweep_example]
  have same: "cancel_expired_payments clock_example sweep_example
                = cancel_expired_after 30 clock_example sweep_example"
    by (rule sweep [THEN conjunct2, THEN conjunct2, THEN conjunct2, THEN conjunct2])
  have "purchases (snd (cancel_expired_after 30 clock_example sweep_example)) ! 1
       = purchases sweep_example ! 1"
    using sweep [THEN conjunct2, THEN conjunct2, THEN conjunct1, rule_format, OF len] not_overdue
    by (simp only: if_False)
  with same have unchanged:
    "purchases (snd (cancel_expired_payments clock_example sweep_example)) ! 1
       = purchases sweep_example ! 1"
    by simp
  show ?thesis
    by (rule conjI [OF eval(1) conjI [OF eval(2) conjI [OF eval(3) unchanged]]])
qed

subsection \<open>Creating a payment\<close>

lemma apply_promo_code_purchases:
  "purchases (snd (apply_promo_code t code base_price user_id s)) = purchases s"
  by (simp add: apply_promo_code_def Let_def split: option.splits)

lemma apply_promo_code_fails_iff:
  "(\<exists>e. fst (apply_promo_code t code base_price user_id s) = Inl e)
   \<longleftrightarrow> (case first (\<lambda>q. pc_code q = upper code) (promocodes s) of
          None \<Rightarrow> True | Some promo \<Rightarrow> \<not> is_valid t promo)"
proof (cases "first (\<lambda>q. pc_code q = upper code) (promocodes s)")
  case None
  then show ?thesis by (simp add: apply_promo_code_def)
next
  case (Some promo)
  show ?thesis
  proof (cases "is_valid t promo")
    case False
    with Some show ?thesis by (simp add: apply_promo_code_def)
  next
    case True
    from is_valid_uses_left [OF True] have exhausted:
      "(truthy (pc_max_uses promo) \<and> pc_current_uses promo \<ge> the (pc_max_uses promo)) = False"
      by simp
    from Some True show ?thesis
      by (simp add: apply_promo_code_def Let_def exhausted)
  qed
qed

lemma get_item_and_price_active_iff:
  "(\<exists>item price. get_item_and_price item_id item_type s = Inr (Some item, price)
                  \<and> item_is_active item)
   \<longleftrightarrow> (item_type = ''lesson''
          \<and> (case first (\<lambda>l. l_id l = item_id) (lessons s) of
               None \<Rightarrow> False | Some l \<Rightarrow> l_is_active l))
       \<or> (item_type = ''course''
          \<and> (case first (\<lambda>c. c_id c = item_id) (courses s) of
               None \<Rightarrow> False | Some c \<Rightarrow> c_is_active c))"
proof (cases "item_type = ''lesson''")
  case True
  then show ?thesis
    by (cases "first (\<lambda>l. l_id l = item_id) (lessons s)")
       (simp_all add: get_item_and_price_def)
next
  case False
  show ?thesis
  proof (cases "item_type = ''course''")
    case True
    then show ?thesis
      by (cases "first (\<lambda>c. c_id c = item_id) (courses s)")
         (simp_all add: get_item_and_price_def)
  next
    case nc: False
    with False show ?thesis by (simp add: get_item_and_price_def)
  qed
qed

lemma fold_max_ge_init: "(a::int) \<le> fold max xs a"
proof (induction xs arbitrary: a)
  case Nil
  show ?case by simp
next
  case (Cons y ys)
  have "max y a \<le> fold max ys (max y a)" by (rule Cons.IH)
  then show ?case by simp
qed

lemma fold_max_ge_elem: "x \<in> set xs \<Longrightarrow> (x::int) \<le> fold max xs a"
proof (induction xs arbitrary: a)
  case Nil
  then show ?case by simp
next
  case (Cons y ys)
  show ?case
  proof (cases "x = y")
    case True
    have "max y a \<le> fold max ys (max y a)" by (rule fold_max_ge_init)
    with True show ?thesis by simp
  next
    case False
    with Cons.prems have "x \<in> set ys" by simp
    from Cons.IH [OF this] show ?thesis by simp
  qed
qed

text \<open>
  C9, as stated, fails: user and lesson exist and are active, the type is
  \<open>lesson\<close> and nothing was bought before, yet the call fails, because the promo code
  it is given does not exist. No purchase is persisted.
\<close>

theorem create_payment_promo_counterexample:
  "first (\<lambda>u. u_id u = 1) (users promo_example) = Some \<lparr>u_id = 1, u_is_active = True\<rparr>
   \<and> first (\<lambda>l. l_id l = 1) (lessons promo_example)
       = Some \<lparr>l_id = 1, l_price = 100, l_is_active = True\<rparr>
   \<and> \<not> check_existing_purchase 1 1 ''lesson'' promo_example
   \<and> create_payment env_example 1 1 ''lesson'' (Some ''nope'') promo_example
       = (Inl Promo_invalid, promo_example)"
  by code_simp

text \<open>
  C9, amended. A call to \<^verbatim>\<open>create_payment\<close> fails with an error, and the purchases
  are as before, if the user does not exist or is inactive, the item type is neither
  \<open>lesson\<close> nor \<open>course\<close>, the item does not exist or is inactive, the user has a
  completed purchase of the item, a non-empty promo code is given that is unknown or not
  valid, or the generated payment id is already taken. Otherwise exactly one purchase is
  appended: it is pending, belongs to the user, carries the final amount and the
  generated payment id, which no earlier purchase has, and a new primary key.
\<close>

theorem create_payment_outcomes:
  fixes env :: Env and s :: db
  defines "user_ok \<equiv> \<lambda>user_id.
      (case first (\<lambda>u. u_id u = user_id) (users s) of
         None \<Rightarrow> False | Some u \<Rightarrow> u_is_active u)"
    and "item_ok \<equiv> \<lambda>item_id item_type.
      (item_type = ''lesson''
        \<and> (case first (\<lambda>l. l_id l = item_id) (lessons s) of
             None \<Rightarrow> False | Some l \<Rightarrow> l_is_active l))
      \<or> (item_type = ''course''
        \<and> (case first (\<lambda>c. c_id c = item_id) (courses s) of
             None \<Rightarrow> False | Some c \<Rightarrow> c_is_active c))"
    and "owned \<equiv> \<lambda>user_id item_id item_type.
      list_ex (\<lambda>p. p_user_id p = user_id \<and> p_status p = COMPLETED
                  \<and> (if item_type = ''lesson'' then p_lesson_id p = Some item_id
                     else p_course_id p = Some item_id)) (purchases s)"
    and "promo_bad \<equiv> \<lambda>promo_code.
      promo_code \<noteq> None \<and> promo_code \<noteq> Some ''''
      \<and> (case first (\<lambda>q. pc_code q = upper (the promo_code)) (promocodes s) of
            None \<Rightarrow> True | Some promo \<Rightarrow> \<not> is_valid (env_utcnow env) promo)"
    and "taken \<equiv> generate_payment_id (env_uuid_hex env) \<in> set (map p_payment_id (purchases s))"
  shows "(\<not> user_ok user_id \<or> \<not> item_ok item_id item_type \<or> owned user_id item_id item_type
            \<or> promo_bad promo_code \<or> taken
          \<longrightarrow> (\<exists>e. fst (create_payment env user_id item_id item_type promo_code s) = Inl e)
              \<and> purchases (snd (create_payment env user_id item_id item_type promo_code s))
                  = purchases s)
       \<and> (user_ok user_id \<and> item_ok item_id item_type \<and> \<not> owned user_id item_id item_type
            \<and> \<not> promo_bad promo_code \<and> \<not> taken
          \<longrightarrow> (\<exists>r new.
                 fst (create_payment env user_id item_id item_type promo_code s) = Inr r
               \<and> purchases (snd (create_payment env user_id item_id item_type promo_code s))
                   = purchases s @ [new]
               \<and> p_status new = PENDING
               \<and> p_user_id new = user_id
               \<and> p_amount new = pr_final_amount r
               \<and> p_payment_id new = pr_payment_id r
               \<and> pr_payment_id r = generate_payment_id (env_uuid_hex env)
               \<and> p_payment_id new \<notin> set (map p_payment_id (purchases s))
               \<and> p_id new \<notin> set (map p_id (purchases s))))"
proof -
  let ?cp = "create_payment env user_id item_id item_type promo_code s"
  let ?ok = "user_ok user_id \<and> item_ok item_id item_type \<and> \<not> owned user_id item_id item_type
            \<and> \<not> promo_bad promo_code \<and> \<not> taken"
  let ?good = "\<exists>r new. fst ?cp = Inr r \<and> purchases (snd ?cp) = purchases s @ [new]
               \<and> p_status new = PENDING
               \<and> p_user_id new = user_id
               \<and> p_amount new = pr_final_amount r
               \<and> p_payment_id new = pr_payment_id r
               \<and> pr_payment_id r = generate_payment_id (env_uuid_hex env)
               \<and> p_payment_id new \<notin> set (map p_payment_id (purchases s))
               \<and> p_id new \<notin> set (map p_id (purchases s))"
  let ?bad = "(\<exists>e. fst ?cp = Inl e) \<and> purchases (snd ?cp) = purchases s"
  have owned_eq: "owned user_id item_id item_type = check_existing_purchase user_id item_id item_type s"
    by (auto simp: owned_def check_existing_purchase_def first_def find_None_iff list_ex_iff)
  have item_eq: "item_ok item_id item_type
      = (\<exists>item price. get_item_and_price item_id item_type s = Inr (Some item, price)
                      \<and> item_is_active item)"
    unfolding item_ok_def get_item_and_price_active_iff ..
  have leaf: "(\<not> ?ok \<and> ?bad) \<or> (?ok \<and> ?good)"
  proof (cases "first (\<lambda>u. u_id u = user_id) (users s)")
    case None
    then have "\<not> user_ok user_id" "?bad"
      by (simp_all add: user_ok_def create_payment_def)
    then show ?thesis by blast
  next
    case user: (Some user)
    show ?thesis
    proof (cases "u_is_active user")
      case False
      with user have "\<not> user_ok user_id" "?bad"
        by (simp_all add: user_ok_def create_payment_def)
      then show ?thesis by blast
    next
      case active: True
      with user have uok: "user_ok user_id" by (simp add: user_ok_def)
      show ?thesis
      proof (cases "get_item_and_price item_id item_type s")
        case (Inl e)
        with user active have "?bad" by (simp add: create_payment_def)
        moreover from Inl have "\<not> item_ok item_id item_type" by (simp add: item_eq)
        ultimately show ?thesis by blast
      next
        case (Inr found)
        obtain item_opt base_price where found: "found = (item_opt, base_price)"
          by (cases found)
        show ?thesis
        proof (cases item_opt)
          case None
          with user active Inr found have "?bad" by (simp add: create_payment_def)
          moreover from None Inr found have "\<not> item_ok item_id item_type" by (simp add: item_eq)
          ultimately show ?thesis by blast
        next
          case item: (Some item)
          show ?thesis
          proof (cases "item_is_active item")
            case False
            with user active Inr found item have "?bad" by (simp add: create_payment_def)
            moreover from False item Inr found have "\<not> item_ok item_id item_type"
              by (simp add: item_eq)
            ultimately show ?thesis by blast
          next
            case item_active: True
            with item Inr found have iok: "item_ok item_id item_type" by (simp add: item_eq)
            show ?thesis
            proof (cases "check_existing_purchase user_id item_id item_type s")
              case True
              with user active Inr found item item_active have "?bad"
                by (simp add: create_payment_def)
              moreover from True have "owned user_id item_id item_type" by (simp add: owned_eq)
              ultimately show ?thesis by blast
            next
              case fresh: False
              then have nowned: "\<not> owned user_id item_id item_type" by (simp add: owned_eq)
              let ?step = "if promo_code \<noteq> None \<and> promo_code \<noteq> Some ''''
                  then apply_promo_code (env_utcnow env) (the promo_code) base_price user_id s
                  else (Inr (0, base_price), s)"
              have step_purchases: "purchases (snd ?step) = purchases s"
                by (simp add: apply_promo_code_purchases)
              have step_fails: "promo_bad promo_code = (\<exists>e. fst ?step = Inl e)"
                by (simp add: promo_bad_def apply_promo_code_fails_iff)
              have unfold: "?cp =
                  (case ?step of
                      (Inl e, s1) \<Rightarrow> (Inl e, s1)
                    | (Inr (discount_applied, final_price), s1) \<Rightarrow>
                        let payment_id = generate_payment_id (env_uuid_hex env);
                            invoice_payload =
                              create_invoice_payload (env_timestamp env) user_id (Some item_id)
                                item_type payment_id;
                            purchase =
                              \<lparr> p_id = 0,
                                p_user_id = user_id,
                                p_lesson_id = (if item_type = ''lesson'' then Some item_id else None),
                                p_course_id = (if item_type = ''lesson'' then None else Some item_id),
                                p_payment_id = payment_id,
                                p_amount = final_price,
                                p_status = PENDING,
                                p_created_at = env_db_now env,
                                p_updated_at = env_db_now env \<rparr>
                        in (case add_purchase purchase s1 of
                              Inl e \<Rightarrow> (Inl e, s1)
                            | Inr s2 \<Rightarrow>
                                (Inr \<lparr> pr_payment_id = payment_id,
                                       pr_amount = base_price,
                                       pr_final_amount = final_price,
                                       pr_discount_applied = discount_applied,
                                       pr_invoice_payload = invoice_payload \<rparr>, s2)))"
                using user active Inr found item item_active fresh
                by (simp add: create_payment_def)
              obtain res s1 where step: "?step = (res, s1)" by (cases ?step)
              with step_purchases have s1: "purchases s1 = purchases s" by simp
              show ?thesis
              proof (cases res)
                case (Inl e)
                with step have "fst ?step = Inl e" by simp
                then have "promo_bad promo_code" using step_fails by blast
                moreover from unfold step Inl s1 have "?bad" by simp
                ultimately show ?thesis by blast
              next
                case (Inr amounts)
                obtain discount_applied final_price where
                  amounts: "amounts = (discount_applied, final_price)" by (cases amounts)
                from step Inr have "fst ?step = Inr amounts" by simp
                then have npromo: "\<not> promo_bad promo_code" using step_fails by simp
                show ?thesis
                proof (cases taken)
                  case True
                  with unfold step Inr amounts s1 have "?bad"
                    by (simp add: add_purchase_def taken_def Let_def)
                  with True show ?thesis by blast
                next
                  case False
                  have fresh_id: "next_id (purchases s) \<notin> set (map p_id (purchases s))"
                    using fold_max_ge_elem [of "next_id (purchases s)" "map p_id (purchases s)" 0]
                    by (auto simp: next_id_def)
                  from False unfold step Inr amounts s1 fresh_id have "?good"
                    by (simp add: add_purchase_def taken_def Let_def)
                  with uok iok nowned npromo False show ?thesis by blast
                qed
              qed
            qed
          qed
        qed
      qed
    qed
  qed
  then show ?thesis by blast
qed

end
